theory Spec2Isabelle
  imports Main "HOL-Library.Word" "HOL-Library.List_Lexorder" "HOL-Library.Multiset"
begin

section \<open>Bytes, text and errors\<close>

text \<open>
  A Python \<^verbatim>\<open>bytes\<close> object is a list of 8-bit words. With \<open>HOL-Library.List_Lexorder\<close>
  the order on such lists is the lexicographic one (a proper prefix is smaller), which is
  the order Python's \<^verbatim>\<open>sorted\<close> uses on \<^verbatim>\<open>bytes\<close>. A Python \<^verbatim>\<open>str\<close> is the list of its
  code points.
\<close>

type_synonym byte = "8 word"
type_synonym bytes = "byte list"
type_synonym pystr = "nat list"

definition byte_of :: "nat \<Rightarrow> byte" where
  "byte_of n = of_nat n"

definition B :: "string \<Rightarrow> bytes" where
  \<comment> \<open>a bytes literal, \<^verbatim>\<open>b'...'\<close>\<close>
  "B s = map of_char s"

definition U :: "string \<Rightarrow> pystr" where
  \<comment> \<open>a str literal\<close>
  "U s = map of_char s"

text \<open>The exceptions that \<^verbatim>\<open>pack\<close> and \<^verbatim>\<open>unpack\<close> can raise, as values.\<close>

datatype error =
    UsageError pystr
  | StructError
  | TypeError
  | IndexError
  | KeyError
  | ValueError
  | UnicodeEncodeError
  | UnicodeDecodeError
  | InvalidOperation
  | AttributeError
  | OtherError pystr

subsection \<open>Big-endian integers\<close>

fun be_bytes :: "nat \<Rightarrow> nat \<Rightarrow> bytes" where
  "be_bytes 0 k = []"
| "be_bytes (Suc n) k = be_bytes n (k div 256) @ [of_nat k]"

definition be_nat :: "bytes \<Rightarrow> nat" where
  "be_nat bs = foldl (\<lambda>a b. a * 256 + unat b) 0 bs"

subsection \<open>UTF-8\<close>

text \<open>
  \<^verbatim>\<open>bytes(s, 'utf-8')\<close> fails on a surrogate code point; \<^verbatim>\<open>str(b, 'utf-8')\<close> accepts
  exactly the well-formed sequences: shortest form only, no surrogates, nothing above
  U+10FFFF.
\<close>

definition is_scalar :: "nat \<Rightarrow> bool" where
  "is_scalar cp = (cp < 0x110000 \<and> \<not> (0xD800 \<le> cp \<and> cp \<le> 0xDFFF))"

definition utf8_char :: "nat \<Rightarrow> bytes" where
  "utf8_char cp =
     (if cp < 0x80 then [byte_of cp]
      else if cp < 0x800 then [byte_of (0xC0 + cp div 64), byte_of (0x80 + cp mod 64)]
      else if cp < 0x10000 then
        [byte_of (0xE0 + cp div 4096), byte_of (0x80 + cp div 64 mod 64),
         byte_of (0x80 + cp mod 64)]
      else
        [byte_of (0xF0 + cp div 262144), byte_of (0x80 + cp div 4096 mod 64),
         byte_of (0x80 + cp div 64 mod 64), byte_of (0x80 + cp mod 64)])"

definition utf8_encode :: "pystr \<Rightarrow> error + bytes" where
  "utf8_encode s =
     (if list_all is_scalar s then Inr (concat (map utf8_char s)) else Inl UnicodeEncodeError)"

definition is_cont :: "byte \<Rightarrow> bool" where
  "is_cont b = (0x80 \<le> unat b \<and> unat b < 0xC0)"

definition utf8_check :: "nat \<Rightarrow> nat \<Rightarrow> bytes \<Rightarrow> (nat \<times> bytes) option" where
  "utf8_check lo cp r = (if lo \<le> cp \<and> is_scalar cp then Some (cp, r) else None)"

fun utf8_take :: "bytes \<Rightarrow> (nat \<times> bytes) option" where
  "utf8_take [] = None"
| "utf8_take (b # bs) =
     (if unat b < 0x80 then Some (unat b, bs)
      else if unat b < 0xC0 then None
      else if unat b < 0xE0 then
        (case bs of
           c1 # r \<Rightarrow>
             if is_cont c1
             then utf8_check 0x80 ((unat b - 0xC0) * 64 + (unat c1 - 0x80)) r
             else None
         | _ \<Rightarrow> None)
      else if unat b < 0xF0 then
        (case bs of
           c1 # c2 # r \<Rightarrow>
             if is_cont c1 \<and> is_cont c2
             then utf8_check 0x800
               ((unat b - 0xE0) * 4096 + (unat c1 - 0x80) * 64 + (unat c2 - 0x80)) r
             else None
         | _ \<Rightarrow> None)
      else if unat b < 0xF8 then
        (case bs of
           c1 # c2 # c3 # r \<Rightarrow>
             if is_cont c1 \<and> is_cont c2 \<and> is_cont c3
             then utf8_check 0x10000
               ((unat b - 0xF0) * 262144 + (unat c1 - 0x80) * 4096 + (unat c2 - 0x80) * 64
                + (unat c3 - 0x80)) r
             else None
         | _ \<Rightarrow> None)
      else None)"

lemma utf8_take_shorter: "utf8_take bs = Some (cp, r) \<Longrightarrow> length r < length bs"
  by (cases bs) (auto simp: utf8_check_def split: if_splits list.splits)

function utf8_decode :: "bytes \<Rightarrow> error + pystr" where
  "utf8_decode bs =
     (if bs = [] then Inr []
      else case utf8_take bs of
             None \<Rightarrow> Inl UnicodeDecodeError
           | Some (cp, r) \<Rightarrow>
               (case utf8_decode r of Inl e \<Rightarrow> Inl e | Inr s \<Rightarrow> Inr (cp # s)))"
  by pat_completeness auto
termination
  by (relation "measure length") (auto dest: utf8_take_shorter)

declare utf8_decode.simps [simp del]

subsection \<open>Hexadecimal text\<close>

text \<open>
  \<^verbatim>\<open>bytes.hex()\<close> writes two lower-case digits per byte. \<^verbatim>\<open>bytes.fromhex\<close> reads pairs of
  digits of either case, skips ASCII whitespace between pairs, and raises
  \<^verbatim>\<open>ValueError\<close> on anything else.
\<close>

definition hex_digit :: "nat \<Rightarrow> nat" where
  "hex_digit d = (if d < 10 then 48 + d else 87 + d)"

definition hex :: "bytes \<Rightarrow> pystr" where
  "hex bs = concat (map (\<lambda>b. [hex_digit (unat b div 16), hex_digit (unat b mod 16)]) bs)"

definition hex_val :: "nat \<Rightarrow> nat option" where
  "hex_val c =
     (if 48 \<le> c \<and> c \<le> 57 then Some (c - 48)
      else if 97 \<le> c \<and> c \<le> 102 then Some (c - 87)
      else if 65 \<le> c \<and> c \<le> 70 then Some (c - 55)
      else None)"

definition is_space :: "nat \<Rightarrow> bool" where
  "is_space c = (c = 32 \<or> (9 \<le> c \<and> c \<le> 13))"

fun fromhex :: "pystr \<Rightarrow> error + bytes" where
  "fromhex [] = Inr []"
| "fromhex [c] = (if is_space c then Inr [] else Inl ValueError)"
| "fromhex (c # c' # cs) =
     (if is_space c then fromhex (c' # cs)
      else case hex_val c of
             None \<Rightarrow> Inl ValueError
           | Some hi \<Rightarrow>
               (case hex_val c' of
                  None \<Rightarrow> Inl ValueError
                | Some lo \<Rightarrow>
                    (case fromhex cs of
                       Inl e \<Rightarrow> Inl e
                     | Inr bs \<Rightarrow> Inr (byte_of (16 * hi + lo) # bs))))"

section \<open>The struct module\<close>

text \<open>
  The format strings used by the codec are all in network byte order (\<^verbatim>\<open>!\<close>) and made of
  four kinds of item: \<^verbatim>\<open>Ns\<close> (a byte string of \<open>N\<close> bytes), \<^verbatim>\<open>I\<close> (unsigned 32 bit),
  \<^verbatim>\<open>?\<close> (a boolean in one byte) and \<^verbatim>\<open>d\<close> (an IEEE double, here its 64 bits). The count
  of \<^verbatim>\<open>Ns\<close> is computed by the caller and can come out negative; the format string is then
  malformed and \<^verbatim>\<open>struct.error\<close> is raised.
\<close>

datatype fmt = Fs int | FI | Fbool | Fd

datatype sval = Sbytes bytes | Sint int | Sbool bool | Sfloat "64 word"

fun fmt_ok :: "fmt \<Rightarrow> bool" where
  "fmt_ok (Fs n) = (0 \<le> n)"
| "fmt_ok _ = True"

fun fmt_size :: "fmt \<Rightarrow> nat" where
  "fmt_size (Fs n) = nat n"
| "fmt_size FI = 4"
| "fmt_size Fbool = 1"
| "fmt_size Fd = 8"

definition calcsize :: "fmt list \<Rightarrow> nat" where
  "calcsize fs = sum_list (map fmt_size fs)"

fun pack_items :: "fmt list \<Rightarrow> sval list \<Rightarrow> error + bytes" where
  "pack_items [] [] = Inr []"
| "pack_items (f # fs) (a # as) =
     (case (case (f, a) of
              (Fs n, Sbytes b) \<Rightarrow> Inr (take (nat n) b @ replicate (nat n - length b) 0)
            | (FI, Sint i) \<Rightarrow>
                if 0 \<le> i \<and> i < 2 ^ 32 then Inr (be_bytes 4 (nat i)) else Inl StructError
            | (Fbool, Sbool t) \<Rightarrow> Inr [if t then 1 else 0]
            | (Fd, Sfloat w) \<Rightarrow> Inr (be_bytes 8 (unat w))
            | _ \<Rightarrow> Inl StructError) of
        Inl e \<Rightarrow> Inl e
      | Inr bs \<Rightarrow> (case pack_items fs as of Inl e \<Rightarrow> Inl e | Inr rest \<Rightarrow> Inr (bs @ rest)))"
| "pack_items _ _ = Inl StructError"

definition struct_pack :: "fmt list \<Rightarrow> sval list \<Rightarrow> error + bytes" where
  "struct_pack fs as = (if list_all fmt_ok fs then pack_items fs as else Inl StructError)"

fun unpack_items :: "fmt list \<Rightarrow> bytes \<Rightarrow> sval list" where
  "unpack_items [] bs = []"
| "unpack_items (Fs n # fs) bs = Sbytes (take (nat n) bs) # unpack_items fs (drop (nat n) bs)"
| "unpack_items (FI # fs) bs = Sint (int (be_nat (take 4 bs))) # unpack_items fs (drop 4 bs)"
| "unpack_items (Fbool # fs) bs = Sbool (take 1 bs \<noteq> [0]) # unpack_items fs (drop 1 bs)"
| "unpack_items (Fd # fs) bs = Sfloat (of_nat (be_nat (take 8 bs))) # unpack_items fs (drop 8 bs)"

definition struct_unpack :: "fmt list \<Rightarrow> bytes \<Rightarrow> error + sval list" where
  "struct_unpack fs bs =
     (if list_all fmt_ok fs \<and> length bs = calcsize fs then Inr (unpack_items fs bs)
      else Inl StructError)"

section \<open>The data model\<close>

text \<open>
  The values \<^verbatim>\<open>pack\<close> can be called with. A \<^verbatim>\<open>set\<close> is the list of its elements in
  iteration order and a \<^verbatim>\<open>dict\<close> the list of its items in insertion order, because the
  encoder iterates over them; two sets with the same elements in different iteration
  orders are different values here, although Python's \<^verbatim>\<open>==\<close> holds between them.
  A \<^verbatim>\<open>float\<close> is the 64 bits of its IEEE-754 representation. An instance of a class
  implementing \<^verbatim>\<open>Packable\<close> is the name of its class and an opaque state \<open>'o\<close>, a
  \<^verbatim>\<open>Decimal\<close> an opaque \<open>'d\<close>. \<open>OtherV k\<close> is a value of any other type, \<open>k\<close> being the
  name of that type.
\<close>

datatype ('o, 'd) pyval =
    PackableV pystr 'o
  | DictV "(('o, 'd) pyval \<times> ('o, 'd) pyval) list"
  | ListV "('o, 'd) pyval list"
  | SetV "('o, 'd) pyval list"
  | TupleV "('o, 'd) pyval list"
  | StrV pystr
  | BytesV bytes
  | BytearrayV bytes
  | IntV int
  | BoolV bool
  | FloatV "64 word"
  | DecimalV 'd
  | NoneV
  | OtherV pystr

text \<open>
  An object bound to a name in \<^verbatim>\<open>globals()\<close> or in \<^verbatim>\<open>inject\<close>: it has an \<^verbatim>\<open>unpack\<close>
  attribute or it has none. The attribute is called as \<^verbatim>\<open>unpack(packed_data, inject=inject)\<close>;
  \<^verbatim>\<open>inject\<close> is the same dictionary in every call made below one call of the top-level
  \<^verbatim>\<open>unpack\<close>, so the function stored here is the attribute at that \<^verbatim>\<open>inject\<close>.
\<close>

datatype ('o, 'd) entry =
    NoUnpack
  | HasUnpack "bytes \<Rightarrow> error + ('o, 'd) pyval"

type_synonym ('o, 'd) registry = "pystr \<rightharpoonup> ('o, 'd) entry"

text \<open>
  What the codec calls outside its own file: the \<^verbatim>\<open>pack\<close> method, hashing and indexing
  of extension objects, \<^verbatim>\<open>str\<close> and the constructor of \<^verbatim>\<open>Decimal\<close>, the comparison
  \<^verbatim>\<open>a == b\<close> that \<^verbatim>\<open>set\<close> and \<^verbatim>\<open>dict\<close> use between a stored key \<open>a\<close> and a new key \<open>b\<close>,
  and the module's \<^verbatim>\<open>globals()\<close>.
\<close>

record ('o, 'd) host =
  obj_pack :: "pystr \<Rightarrow> 'o \<Rightarrow> bytes"
  obj_hashable :: "pystr \<Rightarrow> 'o \<Rightarrow> bool"
  obj_getitem :: "pystr \<Rightarrow> 'o \<Rightarrow> nat \<Rightarrow> error + ('o, 'd) pyval"
  decimal_str :: "'d \<Rightarrow> pystr"
  decimal_new :: "pystr \<Rightarrow> error + 'd"
  key_eq :: "('o, 'd) pyval \<Rightarrow> ('o, 'd) pyval \<Rightarrow> bool"
  globals :: "('o, 'd) registry"

text \<open>
  Modelled from the spec: \<^verbatim>\<open>tressa\<close> is imported from \<^verbatim>\<open>errors.py\<close>, which is not among
  the sources. It is an assertion that raises the usage error with the given message when
  its condition is false; the test \<^verbatim>\<open>test_unserializable_type_raises_error\<close> expects
  \<^verbatim>\<open>UsageError\<close> with the message passed here.
\<close>

definition tressa :: "bool \<Rightarrow> pystr \<Rightarrow> error + unit" where
  "tressa condition message = (if condition then Inr () else Inl (UsageError message))"

section \<open>pack\<close>

fun type_name :: "('o, 'd) pyval \<Rightarrow> pystr" where
  "type_name (PackableV cls obj) = cls"
| "type_name (DictV kvs) = U ''dict''"
| "type_name (ListV xs) = U ''list''"
| "type_name (SetV xs) = U ''set''"
| "type_name (TupleV xs) = U ''tuple''"
| "type_name (StrV s) = U ''str''"
| "type_name (BytesV b) = U ''bytes''"
| "type_name (BytearrayV b) = U ''bytearray''"
| "type_name (IntV i) = U ''int''"
| "type_name (BoolV t) = U ''bool''"
| "type_name (FloatV w) = U ''float''"
| "type_name (DecimalV d) = U ''decimal.Decimal''"
| "type_name NoneV = U ''NoneType''"
| "type_name (OtherV k) = k"

definition type_repr :: "('o, 'd) pyval \<Rightarrow> pystr" where
  \<comment> \<open>\<^verbatim>\<open>f'{type(data)}'\<close>, that is \<^verbatim>\<open><class 'name'>\<close>; 39 is the apostrophe\<close>
  "type_repr v = U ''<class '' @ [39] @ type_name v @ [39] @ U ''>''"

fun serializable :: "('o, 'd) pyval \<Rightarrow> bool" where
  \<comment> \<open>the condition of the assertion that opens \<^verbatim>\<open>pack\<close>\<close>
  "serializable (OtherV k) = False"
| "serializable _ = True"

definition not_serializable :: "('o, 'd) pyval \<Rightarrow> pystr" where
  "not_serializable v =
     U ''data type must be one of (Packable, list, set, tuple, ''
     @ U ''str, bytes, bytearray, int, bool, float, Decimal, NoneType); ''
     @ type_repr v @ U '' is not serializable''"

text \<open>A list comprehension over calls that can raise: the first exception ends it.\<close>

fun map_err :: "('a \<Rightarrow> error + 'b) \<Rightarrow> 'a list \<Rightarrow> error + 'b list" where
  "map_err f [] = Inr []"
| "map_err f (x # xs) =
     (case f x of
        Inl e \<Rightarrow> Inl e
      | Inr y \<Rightarrow> (case map_err f xs of Inl e \<Rightarrow> Inl e | Inr ys \<Rightarrow> Inr (y # ys)))"

lemma map_err_cong [fundef_cong]:
  "xs = ys \<Longrightarrow> (\<And>x. x \<in> set ys \<Longrightarrow> f x = g x) \<Longrightarrow> map_err f xs = map_err g ys"
  by (induction ys arbitrary: xs) (auto split: sum.splits)

definition frame :: "char \<Rightarrow> bytes \<Rightarrow> error + bytes" where
  \<comment> \<open>\<^verbatim>\<open>struct.pack(f'!1sI{len(payload)}s', code, len(payload), payload)\<close>\<close>
  "frame code payload =
     struct_pack [Fs 1, FI, Fs (int (length payload))]
       [Sbytes (B [code]), Sint (int (length payload)), Sbytes payload]"

lemma size_pair_in_list:
  "(k, v) \<in> set kvs \<Longrightarrow> size k + size v + 2 \<le> size_list (size_prod size size) kvs"
  by (induction kvs) auto

definition pack_measure :: "('o, 'd) pyval \<Rightarrow> nat" where
  \<comment> \<open>the encoding of a dict item packs a tuple that is no part of the dict\<close>
  "pack_measure v = 2 * size v + (case v of DictV _ \<Rightarrow> 1 | _ \<Rightarrow> 0)"

lemma pack_measure_le: "pack_measure v \<le> 2 * size v + 1"
  by (simp add: pack_measure_def split: pyval.splits)

lemma pack_measure_ge: "2 * size v \<le> pack_measure v"
  by (simp add: pack_measure_def)

function pack :: "('o, 'd) host \<Rightarrow> ('o, 'd) pyval \<Rightarrow> error + bytes" where
  "pack H data =
     (case tressa (serializable data) (not_serializable data) of
        Inl e \<Rightarrow> Inl e
      | Inr _ \<Rightarrow>
          (case data of
             PackableV cls obj \<Rightarrow>
               (case utf8_encode cls of
                  Inl e \<Rightarrow> Inl e
                | Inr name \<Rightarrow>
                    (case utf8_encode (hex name) of
                       Inl e \<Rightarrow> Inl e
                     | Inr packed \<Rightarrow> frame CHR ''p'' (packed @ B ''_'' @ obj_pack H cls obj)))
           | ListV xs \<Rightarrow>
               (case map_err (pack H) xs of
                  Inl e \<Rightarrow> Inl e
                | Inr fs \<Rightarrow> frame CHR ''l'' (concat fs))
           | SetV xs \<Rightarrow>
               (case map_err (pack H) xs of
                  Inl e \<Rightarrow> Inl e
                | Inr fs \<Rightarrow> frame CHR ''e'' (concat fs))
           | TupleV xs \<Rightarrow>
               (case map_err (pack H) xs of
                  Inl e \<Rightarrow> Inl e
                | Inr fs \<Rightarrow> frame CHR ''t'' (concat fs))
           | BytesV b \<Rightarrow> frame CHR ''b'' b
           | BytearrayV b \<Rightarrow> frame CHR ''a'' b
           | StrV s \<Rightarrow>
               (case utf8_encode s of Inl e \<Rightarrow> Inl e | Inr b \<Rightarrow> frame CHR ''s'' b)
           | IntV i \<Rightarrow> struct_pack [Fs 1, FI, FI] [Sbytes (B ''i''), Sint 4, Sint i]
           | BoolV t \<Rightarrow> struct_pack [Fs 1, FI, Fbool] [Sbytes (B ''B''), Sint 1, Sbool t]
           | FloatV w \<Rightarrow> struct_pack [Fs 1, FI, Fd] [Sbytes (B ''f''), Sint 8, Sfloat w]
           | DecimalV d \<Rightarrow>
               (case utf8_encode (decimal_str H d) of
                  Inl e \<Rightarrow> Inl e
                | Inr b \<Rightarrow> frame CHR ''D'' b)
           | DictV kvs \<Rightarrow>
               (case map_err (\<lambda>(key, value). pack H (TupleV [key, value])) kvs of
                  Inl e \<Rightarrow> Inl e
                | Inr fs \<Rightarrow> frame CHR ''d'' (concat (sort fs)))
           | NoneV \<Rightarrow> struct_pack [Fs 1, FI] [Sbytes (B ''n''), Sint 0]
           | OtherV k \<Rightarrow> Inr []))"
  by pat_completeness auto
termination
proof (relation "measure (\<lambda>(H, v). pack_measure v)", goal_cases)
  case 1
  show ?case by simp
next
  case (2 H data u kvs kv k v)
  from \<open>kv \<in> set kvs\<close> \<open>(k, v) = kv\<close> have "(k, v) \<in> set kvs"
    by simp
  then have "size k + size v + 2 \<le> size_list (size_prod size size) kvs"
    by (rule size_pair_in_list)
  with \<open>data = DictV kvs\<close> show ?case by (simp add: pack_measure_def)
next
  case (3 H data u xs x)
  from \<open>x \<in> set xs\<close> have "size x < Suc (size_list size xs)"
    by (simp add: less_Suc_eq_le size_list_estimation')
  with \<open>data = ListV xs\<close> pack_measure_le [of x] pack_measure_ge [of data]
  show ?case by simp
next
  case (4 H data u xs x)
  from \<open>x \<in> set xs\<close> have "size x < Suc (size_list size xs)"
    by (simp add: less_Suc_eq_le size_list_estimation')
  with \<open>data = SetV xs\<close> pack_measure_le [of x] pack_measure_ge [of data]
  show ?case by simp
next
  case (5 H data u xs x)
  from \<open>x \<in> set xs\<close> have "size x < Suc (size_list size xs)"
    by (simp add: less_Suc_eq_le size_list_estimation')
  with \<open>data = TupleV xs\<close> pack_measure_le [of x] pack_measure_ge [of data]
  show ?case by simp
qed

declare pack.simps [simp del]

section \<open>unpack\<close>

subsection \<open>Reading the results of \<^verbatim>\<open>struct.unpack\<close>\<close>

text \<open>
  The tuple assignments \<^verbatim>\<open>a, b = struct.unpack(...)\<close>. The format fixes the number and
  the types of the results, so the last equation of each function is never reached.
\<close>

fun as_ss :: "error + sval list \<Rightarrow> error + bytes \<times> bytes" where
  "as_ss (Inl e) = Inl e"
| "as_ss (Inr [Sbytes a, Sbytes b]) = Inr (a, b)"
| "as_ss (Inr _) = Inl ValueError"

fun as_Is :: "error + sval list \<Rightarrow> error + int \<times> bytes" where
  "as_Is (Inl e) = Inl e"
| "as_Is (Inr [Sint n, Sbytes b]) = Inr (n, b)"
| "as_Is (Inr _) = Inl ValueError"

fun as_sIs :: "error + sval list \<Rightarrow> error + bytes \<times> int \<times> bytes" where
  "as_sIs (Inl e) = Inl e"
| "as_sIs (Inr [Sbytes a, Sint n, Sbytes b]) = Inr (a, n, b)"
| "as_sIs (Inr _) = Inl ValueError"

fun pyval_of :: "sval \<Rightarrow> ('o, 'd) pyval" where
  "pyval_of (Sbytes b) = BytesV b"
| "pyval_of (Sint i) = IntV i"
| "pyval_of (Sbool t) = BoolV t"
| "pyval_of (Sfloat w) = FloatV w"

lemma as_ss_iff:
  "as_ss (struct_unpack [Fs a, Fs b] d) = Inr (x, y) \<longleftrightarrow>
     0 \<le> a \<and> 0 \<le> b \<and> length d = nat a + nat b \<and> x = take (nat a) d \<and> y = drop (nat a) d"
  by (auto simp: struct_unpack_def calcsize_def)

lemma as_Is_iff:
  "as_Is (struct_unpack [FI, Fs b] d) = Inr (n, y) \<longleftrightarrow>
     0 \<le> b \<and> length d = 4 + nat b \<and> n = int (be_nat (take 4 d)) \<and> y = drop 4 d"
  by (auto simp: struct_unpack_def calcsize_def)

lemma as_sIs_iff:
  "as_sIs (struct_unpack [Fs 1, FI, Fs b] d) = Inr (c, n, y) \<longleftrightarrow>
     0 \<le> b \<and> length d = 5 + nat b \<and> c = take 1 d \<and> n = int (be_nat (take 4 (drop 1 d)))
     \<and> y = drop 5 d"
  by (auto simp: struct_unpack_def calcsize_def)

subsection \<open>Built-in operations on the decoded items\<close>

definition partition :: "byte \<Rightarrow> bytes \<Rightarrow> bytes \<times> bytes" where
  \<comment> \<open>\<^verbatim>\<open>head, _, tail = b.partition(sep)\<close> for a separator of one byte\<close>
  "partition sep b = (takeWhile (\<lambda>x. x \<noteq> sep) b, drop 1 (dropWhile (\<lambda>x. x \<noteq> sep) b))"

text \<open>
  \<^verbatim>\<open>hash(v)\<close> succeeds: lists, sets, dicts and bytearrays are unhashable, a tuple is
  hashable when its elements are. Functions, classes and modules, the usual values outside
  the data model, are hashable.
\<close>

fun hashable :: "('o, 'd) host \<Rightarrow> ('o, 'd) pyval \<Rightarrow> bool" where
  "hashable H (PackableV cls obj) = obj_hashable H cls obj"
| "hashable H (DictV kvs) = False"
| "hashable H (ListV xs) = False"
| "hashable H (SetV xs) = False"
| "hashable H (TupleV xs) = list_all (hashable H) xs"
| "hashable H (BytearrayV b) = False"
| "hashable H _ = True"

text \<open>
  \<^verbatim>\<open>set(items)\<close> adds the items one by one; an item equal to a stored one is dropped.
  The iteration order of the set that CPython builds depends on the hashes; the model lists
  the elements in the order of their first insertion.
\<close>

definition set_add ::
  "('o, 'd) host \<Rightarrow> ('o, 'd) pyval list \<Rightarrow> ('o, 'd) pyval \<Rightarrow> error + ('o, 'd) pyval list" where
  "set_add H s x =
     (if hashable H x then Inr (if list_ex (\<lambda>y. key_eq H y x) s then s else s @ [x])
      else Inl TypeError)"

fun set_of_items ::
  "('o, 'd) host \<Rightarrow> ('o, 'd) pyval list \<Rightarrow> ('o, 'd) pyval list \<Rightarrow> error + ('o, 'd) pyval list" where
  "set_of_items H s [] = Inr s"
| "set_of_items H s (x # xs) =
     (case set_add H s x of Inl e \<Rightarrow> Inl e | Inr s' \<Rightarrow> set_of_items H s' xs)"

definition py_set :: "('o, 'd) host \<Rightarrow> ('o, 'd) pyval list \<Rightarrow> error + ('o, 'd) pyval" where
  "py_set H items = (case set_of_items H [] items of Inl e \<Rightarrow> Inl e | Inr s \<Rightarrow> Inr (SetV s))"

text \<open>\<^verbatim>\<open>d[key]\<close> and \<^verbatim>\<open>d[key] = value\<close>; a stored key equal to the new one keeps its place.\<close>

fun dict_get ::
  "('o, 'd) host \<Rightarrow> (('o, 'd) pyval \<times> ('o, 'd) pyval) list \<Rightarrow> ('o, 'd) pyval
   \<Rightarrow> error + ('o, 'd) pyval" where
  "dict_get H [] key = Inl KeyError"
| "dict_get H ((k, v) # d) key = (if key_eq H k key then Inr v else dict_get H d key)"

fun dict_store ::
  "('o, 'd) host \<Rightarrow> (('o, 'd) pyval \<times> ('o, 'd) pyval) list \<Rightarrow> ('o, 'd) pyval \<Rightarrow> ('o, 'd) pyval
   \<Rightarrow> (('o, 'd) pyval \<times> ('o, 'd) pyval) list" where
  "dict_store H [] key value = [(key, value)]"
| "dict_store H ((k, v) # d) key value =
     (if key_eq H k key then (k, value) # d else (k, v) # dict_store H d key value)"

text \<open>\<^verbatim>\<open>pair[i]\<close> for an index that is not negative.\<close>

fun getitem :: "('o, 'd) host \<Rightarrow> ('o, 'd) pyval \<Rightarrow> nat \<Rightarrow> error + ('o, 'd) pyval" where
  "getitem H (PackableV cls obj) i = obj_getitem H cls obj i"
| "getitem H (DictV kvs) i = dict_get H kvs (IntV (int i))"
| "getitem H (ListV xs) i = (if i < length xs then Inr (xs ! i) else Inl IndexError)"
| "getitem H (TupleV xs) i = (if i < length xs then Inr (xs ! i) else Inl IndexError)"
| "getitem H (StrV s) i = (if i < length s then Inr (StrV [s ! i]) else Inl IndexError)"
| "getitem H (BytesV b) i = (if i < length b then Inr (IntV (uint (b ! i))) else Inl IndexError)"
| "getitem H (BytearrayV b) i =
     (if i < length b then Inr (IntV (uint (b ! i))) else Inl IndexError)"
| "getitem H _ i = Inl TypeError"

text \<open>The comprehension \<^verbatim>\<open>{pair[0]: pair[1] for pair in items}\<close>.\<close>

fun dict_of_items ::
  "('o, 'd) host \<Rightarrow> (('o, 'd) pyval \<times> ('o, 'd) pyval) list \<Rightarrow> ('o, 'd) pyval list
   \<Rightarrow> error + (('o, 'd) pyval \<times> ('o, 'd) pyval) list" where
  "dict_of_items H d [] = Inr d"
| "dict_of_items H d (pair # ps) =
     (case getitem H pair 0 of
        Inl e \<Rightarrow> Inl e
      | Inr key \<Rightarrow>
          (case getitem H pair 1 of
             Inl e \<Rightarrow> Inl e
           | Inr value \<Rightarrow>
               if hashable H key then dict_of_items H (dict_store H d key value) ps
               else Inl TypeError))"

definition py_dict :: "('o, 'd) host \<Rightarrow> ('o, 'd) pyval list \<Rightarrow> error + ('o, 'd) pyval" where
  "py_dict H items =
     (case dict_of_items H [] items of Inl e \<Rightarrow> Inl e | Inr d \<Rightarrow> Inr (DictV d))"

fun has_unpack :: "('o, 'd) entry \<Rightarrow> bool" where
  \<comment> \<open>\<^verbatim>\<open>hasattr(entry, 'unpack')\<close>\<close>
  "has_unpack NoUnpack = False"
| "has_unpack (HasUnpack f) = True"

definition dependencies :: "('o, 'd) host \<Rightarrow> ('o, 'd) registry \<Rightarrow> ('o, 'd) registry" where
  \<comment> \<open>\<^verbatim>\<open>{**globals(), **inject}\<close>: an entry of \<^verbatim>\<open>inject\<close> replaces a global of the same name\<close>
  "dependencies H inject = globals H ++ inject"

subsection \<open>The decoder\<close>

text \<open>
  \<open>unpack_loop\<close> is the \<^verbatim>\<open>while\<close> loop of the container branch: it cuts the next frame off
  \<^verbatim>\<open>let_data\<close> and decodes it before it looks at the rest. A tag that none of the branches
  tests for reaches the end of the function body, and the call returns \<^verbatim>\<open>None\<close>.
\<close>

function unpack ::
    "('o, 'd) host \<Rightarrow> ('o, 'd) registry \<Rightarrow> bytes \<Rightarrow> error + ('o, 'd) pyval"
  and unpack_loop ::
    "('o, 'd) host \<Rightarrow> ('o, 'd) registry \<Rightarrow> bytes \<Rightarrow> ('o, 'd) pyval list
     \<Rightarrow> error + ('o, 'd) pyval list"
where
  "unpack H inject data0 =
     (case as_ss (struct_unpack [Fs 1, Fs (int (length data0) - 1)] data0) of
        Inl e \<Rightarrow> Inl e
      | Inr (code, data) \<Rightarrow>
          if code = B ''p'' then
            (case as_Is (struct_unpack [FI, Fs (int (length data) - 4)] data) of
               Inl e \<Rightarrow> Inl e
             | Inr (packed_len, data') \<Rightarrow>
                 (case as_ss (struct_unpack
                         [Fs packed_len, Fs (int (length data') - packed_len)] data') of
                    Inl e \<Rightarrow> Inl e
                  | Inr (packed, _) \<Rightarrow>
                      (case partition (of_char CHR ''_'') packed of
                         (packed_class, packed_data) \<Rightarrow>
                           (case utf8_decode packed_class of
                              Inl e \<Rightarrow> Inl e
                            | Inr hex_name \<Rightarrow>
                                (case fromhex hex_name of
                                   Inl e \<Rightarrow> Inl e
                                 | Inr name_bytes \<Rightarrow>
                                     (case utf8_decode name_bytes of
                                        Inl e \<Rightarrow> Inl e
                                      | Inr cls \<Rightarrow>
    (case tressa (cls \<in> dom (dependencies H inject))
            (cls @ U '' not found in globals or inject; cannot unpack'') of
       Inl e \<Rightarrow> Inl e
     | Inr _ \<Rightarrow>
         (case dependencies H inject cls of
            None \<Rightarrow> Inl KeyError
          | Some entry \<Rightarrow>
              (case tressa (has_unpack entry) (cls @ U '' must have unpack method'') of
                 Inl e \<Rightarrow> Inl e
               | Inr _ \<Rightarrow>
                   (case entry of
                      NoUnpack \<Rightarrow> Inl AttributeError
                    | HasUnpack f \<Rightarrow> f packed_data))))))))))
          else if code \<in> set [B ''l'', B ''e'', B ''t'', B ''d''] then
            (case as_Is (struct_unpack [FI, Fs (int (length data) - 4)] data) of
               Inl e \<Rightarrow> Inl e
             | Inr (let_len, data') \<Rightarrow>
                 (case as_ss (struct_unpack
                         [Fs let_len, Fs (int (length data') - let_len)] data') of
                    Inl e \<Rightarrow> Inl e
                  | Inr (let_data, _) \<Rightarrow>
                      (case unpack_loop H inject let_data [] of
                         Inl e \<Rightarrow> Inl e
                       | Inr items \<Rightarrow>
                           if code = B ''l'' then Inr (ListV items)
                           else if code = B ''e'' then py_set H items
                           else if code = B ''t'' then Inr (TupleV items)
                           else py_dict H items)))
          else if code \<in> set [B ''b'', B ''a''] then
            (case as_Is (struct_unpack [FI, Fs (int (length data) - 4)] data) of
               Inl e \<Rightarrow> Inl e
             | Inr (bt_len, data') \<Rightarrow>
                 (case as_ss (struct_unpack
                         [Fs bt_len, Fs (int (length data') - bt_len)] data') of
                    Inl e \<Rightarrow> Inl e
                  | Inr (bt_data, _) \<Rightarrow>
                      Inr (if code = B ''b'' then BytesV bt_data else BytearrayV bt_data)))
          else if code = B ''s'' then
            (case as_Is (struct_unpack [FI, Fs (int (length data) - 4)] data) of
               Inl e \<Rightarrow> Inl e
             | Inr (s_len, data') \<Rightarrow>
                 (case as_ss (struct_unpack
                         [Fs s_len, Fs (int (length data') - s_len)] data') of
                    Inl e \<Rightarrow> Inl e
                  | Inr (s, _) \<Rightarrow>
                      (case utf8_decode s of Inl e \<Rightarrow> Inl e | Inr text \<Rightarrow> Inr (StrV text))))
          else if code = B ''i'' then
            (case struct_unpack [FI, FI, Fs (int (length data) - 8)] data of
               Inl e \<Rightarrow> Inl e
             | Inr r \<Rightarrow> Inr (pyval_of (r ! 1)))
          else if code = B ''B'' then
            (case struct_unpack [FI, Fbool] data of
               Inl e \<Rightarrow> Inl e
             | Inr r \<Rightarrow> Inr (pyval_of (r ! 1)))
          else if code = B ''f'' then
            (case struct_unpack [FI, Fd, Fs (int (length data) - 12)] data of
               Inl e \<Rightarrow> Inl e
             | Inr r \<Rightarrow> Inr (pyval_of (r ! 1)))
          else if code = B ''D'' then
            (case as_Is (struct_unpack [FI, Fs (int (length data) - 4)] data) of
               Inl e \<Rightarrow> Inl e
             | Inr (s_len, data') \<Rightarrow>
                 (case as_ss (struct_unpack
                         [Fs s_len, Fs (int (length data') - s_len)] data') of
                    Inl e \<Rightarrow> Inl e
                  | Inr (s, _) \<Rightarrow>
                      (case utf8_decode s of
                         Inl e \<Rightarrow> Inl e
                       | Inr text \<Rightarrow>
                           (case decimal_new H text of
                              Inl e \<Rightarrow> Inl e
                            | Inr d \<Rightarrow> Inr (DecimalV d)))))
          else if code = B ''n'' then Inr NoneV
          else Inr NoneV)"
| "unpack_loop H inject let_data items =
     (if length let_data > 0 then
        (case as_sIs (struct_unpack [Fs 1, FI, Fs (int (length let_data) - 5)] let_data) of
           Inl e \<Rightarrow> Inl e
         | Inr (_, item_len, _) \<Rightarrow>
             (case as_ss (struct_unpack
                     [Fs (5 + item_len), Fs (int (length let_data) - 5 - item_len)]
                     let_data) of
                Inl e \<Rightarrow> Inl e
              | Inr (item, let_data') \<Rightarrow>
                  (case unpack H inject item of
                     Inl e \<Rightarrow> Inl e
                   | Inr v \<Rightarrow> unpack_loop H inject let_data' (items @ [v]))))
      else Inr items)"
  by pat_completeness auto
termination
  by (relation "measure (\<lambda>x. case x of
          Inl (H, inject, data) \<Rightarrow> 2 * length data
        | Inr (H, inject, let_data, items) \<Rightarrow> 2 * length let_data + 1)")
     (auto simp: as_ss_iff as_Is_iff as_sIs_iff)

declare unpack.simps [simp del] unpack_loop.simps [simp del]

section \<open>Fixtures and derived notions\<close>

text \<open>
  A host for the examples. Its only extension class is \<^verbatim>\<open>StrWrapper\<close> of the repository's
  tests, whose state is a \<^verbatim>\<open>str\<close>, whose \<^verbatim>\<open>pack\<close> is the UTF-8 encoding of that string and
  whose \<^verbatim>\<open>unpack\<close> decodes it. A \<^verbatim>\<open>Decimal\<close> stands for its string, keys are compared
  structurally, and of the module's globals the two that matter are listed: \<^verbatim>\<open>struct\<close>,
  which has an \<^verbatim>\<open>unpack\<close> attribute that rejects the keyword argument, and \<^verbatim>\<open>Decimal\<close>,
  which has none.
\<close>

definition test_host :: "(pystr, pystr) host" where
  "test_host = \<lparr>
     obj_pack = (\<lambda>cls obj. case utf8_encode obj of Inl e \<Rightarrow> [] | Inr b \<Rightarrow> b),
     obj_hashable = (\<lambda>cls obj. True),
     obj_getitem = (\<lambda>cls obj i. Inl TypeError),
     decimal_str = (\<lambda>d. d),
     decimal_new = (\<lambda>s. Inr s),
     key_eq = (\<lambda>a b. a = b),
     globals = [U ''struct'' \<mapsto> HasUnpack (\<lambda>b. Inl TypeError), U ''Decimal'' \<mapsto> NoUnpack]
   \<rparr>"

text \<open>
  The shape of a frame: one tag byte, four bytes holding the length of the payload as a
  big-endian number, and a payload of exactly that length.
\<close>

definition is_frame :: "bytes \<Rightarrow> bool" where
  "is_frame bs = (5 \<le> length bs \<and> be_nat (take 4 (drop 1 bs)) = length (drop 5 bs))"

definition StrWrapper :: "(pystr, pystr) entry" where
  "StrWrapper =
     HasUnpack (\<lambda>b. case utf8_decode b of
                       Inl e \<Rightarrow> Inl e
                     | Inr s \<Rightarrow> Inr (PackableV (U ''StrWrapper'') s))"

section \<open>Basic lemmas\<close>

lemma length_be_bytes [simp]: "length (be_bytes n k) = n"
  by (induction n arbitrary: k) auto

lemma be_nat_snoc: "be_nat (bs @ [b]) = be_nat bs * 256 + unat b"
  by (simp add: be_nat_def)

lemma be_nat_be_bytes: "be_nat (be_bytes n k) = k mod 256 ^ n"
proof (induction n arbitrary: k)
  case 0
  show ?case by (simp add: be_nat_def)
next
  case (Suc n)
  have "k mod (256 * 256 ^ n) = 256 * (k div 256 mod 256 ^ n) + k mod 256"
    by (rule mod_mult2_eq)
  with Suc show ?case
    by (simp add: be_nat_snoc unat_of_nat)
qed

lemma be_nat_be_bytes_4: "k < 2 ^ 32 \<Longrightarrow> be_nat (be_bytes 4 k) = k"
  by (simp add: be_nat_be_bytes)

lemma be_bytes_4:
  "be_bytes 4 k = [of_nat (k div 256 div 256 div 256), of_nat (k div 256 div 256), of_nat (k div 256), of_nat k]"
proof -
  have "be_bytes 4 k = be_bytes (Suc (Suc (Suc (Suc 0)))) k"
    by (rule arg_cong [where f = "\<lambda>n. be_bytes n k"]) simp
  then show ?thesis by simp
qed

lemma frame_iff:
  "frame c p = Inr bs \<longleftrightarrow> length p < 2 ^ 32 \<and> bs = of_char c # be_bytes 4 (length p) @ p"
  by (auto simp: frame_def struct_pack_def B_def)

lemma frame_Inl: "frame c p = Inl e \<longleftrightarrow> \<not> length p < 2 ^ 32 \<and> e = StructError"
  by (auto simp: frame_def struct_pack_def B_def)

lemma is_frame_cons: "length p < 2 ^ 32 \<Longrightarrow> is_frame (c # be_bytes 4 (length p) @ p)"
  by (simp add: is_frame_def be_nat_be_bytes)

lemma struct_pack_IntV:
  "struct_pack [Fs 1, FI, FI] [Sbytes (B ''i''), Sint 4, Sint i] =
     (if 0 \<le> i \<and> i < 2 ^ 32 then Inr (of_char CHR ''i'' # be_bytes 4 4 @ be_bytes 4 (nat i))
      else Inl StructError)"
  by (simp add: struct_pack_def B_def)

lemma struct_pack_BoolV:
  "struct_pack [Fs 1, FI, Fbool] [Sbytes (B ''B''), Sint 1, Sbool t] =
     Inr (of_char CHR ''B'' # be_bytes 4 1 @ [if t then 1 else 0])"
  by (simp add: struct_pack_def B_def)

lemma struct_pack_FloatV:
  "struct_pack [Fs 1, FI, Fd] [Sbytes (B ''f''), Sint 8, Sfloat w] =
     Inr (of_char CHR ''f'' # be_bytes 4 8 @ be_bytes 8 (unat w))"
  by (simp add: struct_pack_def B_def)

lemma struct_pack_NoneV:
  "struct_pack [Fs 1, FI] [Sbytes (B ''n''), Sint 0] = Inr (of_char CHR ''n'' # be_bytes 4 0)"
  by (simp add: struct_pack_def B_def)

lemmas struct_pack_scalars =
  struct_pack_IntV struct_pack_BoolV struct_pack_FloatV struct_pack_NoneV

lemma pack_PackableV:
  "pack H (PackableV cls obj) =
     (case utf8_encode cls of
        Inl e \<Rightarrow> Inl e
      | Inr name \<Rightarrow>
          (case utf8_encode (hex name) of
             Inl e \<Rightarrow> Inl e
           | Inr packed \<Rightarrow> frame CHR ''p'' (packed @ B ''_'' @ obj_pack H cls obj)))"
  by (simp add: pack.simps [of H "PackableV cls obj"] tressa_def)

lemma pack_ListV:
  "pack H (ListV xs) =
     (case map_err (pack H) xs of Inl e \<Rightarrow> Inl e | Inr fs \<Rightarrow> frame CHR ''l'' (concat fs))"
  by (simp add: pack.simps [of H "ListV xs"] tressa_def)

lemma pack_SetV:
  "pack H (SetV xs) =
     (case map_err (pack H) xs of Inl e \<Rightarrow> Inl e | Inr fs \<Rightarrow> frame CHR ''e'' (concat fs))"
  by (simp add: pack.simps [of H "SetV xs"] tressa_def)

lemma pack_TupleV:
  "pack H (TupleV xs) =
     (case map_err (pack H) xs of Inl e \<Rightarrow> Inl e | Inr fs \<Rightarrow> frame CHR ''t'' (concat fs))"
  by (simp add: pack.simps [of H "TupleV xs"] tressa_def)

lemma pack_DictV:
  "pack H (DictV kvs) =
     (case map_err (\<lambda>(key, value). pack H (TupleV [key, value])) kvs of
        Inl e \<Rightarrow> Inl e
      | Inr fs \<Rightarrow> frame CHR ''d'' (concat (sort fs)))"
  by (simp add: pack.simps [of H "DictV kvs"] tressa_def)

lemma pack_BytesV: "pack H (BytesV b) = frame CHR ''b'' b"
  by (simp add: pack.simps [of H "BytesV b"] tressa_def)

lemma pack_BytearrayV: "pack H (BytearrayV b) = frame CHR ''a'' b"
  by (simp add: pack.simps [of H "BytearrayV b"] tressa_def)

lemma pack_StrV:
  "pack H (StrV s) = (case utf8_encode s of Inl e \<Rightarrow> Inl e | Inr b \<Rightarrow> frame CHR ''s'' b)"
  by (simp add: pack.simps [of H "StrV s"] tressa_def)

lemma pack_IntV:
  "pack H (IntV i) =
     (if 0 \<le> i \<and> i < 2 ^ 32 then Inr (of_char CHR ''i'' # be_bytes 4 4 @ be_bytes 4 (nat i))
      else Inl StructError)"
  by (simp add: pack.simps [of H "IntV i"] tressa_def struct_pack_IntV)

lemma pack_BoolV:
  "pack H (BoolV t) = Inr (of_char CHR ''B'' # be_bytes 4 1 @ [if t then 1 else 0])"
  by (simp add: pack.simps [of H "BoolV t"] tressa_def struct_pack_BoolV)

lemma pack_FloatV:
  "pack H (FloatV w) = Inr (of_char CHR ''f'' # be_bytes 4 8 @ be_bytes 8 (unat w))"
  by (simp add: pack.simps [of H "FloatV w"] tressa_def struct_pack_FloatV)

lemma pack_DecimalV:
  "pack H (DecimalV d) =
     (case utf8_encode (decimal_str H d) of Inl e \<Rightarrow> Inl e | Inr b \<Rightarrow> frame CHR ''D'' b)"
  by (simp add: pack.simps [of H "DecimalV d"] tressa_def)

lemma pack_NoneV: "pack H NoneV = Inr (of_char CHR ''n'' # be_bytes 4 0)"
  by (simp add: pack.simps [of H NoneV] tressa_def struct_pack_NoneV)

lemma pack_OtherV:
  fixes H :: "('o, 'd) host"
  shows "pack H (OtherV k) = Inl (UsageError (not_serializable (OtherV k :: ('o, 'd) pyval)))"
  by (simp add: pack.simps [of H "OtherV k"] tressa_def)

lemmas pack_eqs =
  pack_PackableV pack_ListV pack_SetV pack_TupleV pack_DictV pack_BytesV pack_BytearrayV
  pack_StrV pack_IntV pack_BoolV pack_FloatV pack_DecimalV pack_NoneV pack_OtherV

lemma pack_framed:
  assumes "pack H v = Inr bs"
  shows "\<exists>c p. bs = c # be_bytes 4 (length p) @ p \<and> length p < 2 ^ 32"
proof (cases v)
  case (IntV i)
  with assms have "bs = of_char CHR ''i'' # be_bytes 4 (length (be_bytes 4 (nat i))) @ be_bytes 4 (nat i)"
    by (simp add: pack_IntV split: if_splits)
  moreover have "length (be_bytes 4 (nat i)) < 2 ^ 32" by simp
  ultimately show ?thesis by blast
next
  case (BoolV t)
  with assms have "bs = of_char CHR ''B'' # be_bytes 4 (length [if t then 1 else 0 :: byte]) @ [if t then 1 else 0]"
    by (simp add: pack_BoolV)
  moreover have "length [if t then 1 else 0 :: byte] < 2 ^ 32" by simp
  ultimately show ?thesis by blast
next
  case (FloatV w)
  with assms have "bs = of_char CHR ''f'' # be_bytes 4 (length (be_bytes 8 (unat w))) @ be_bytes 8 (unat w)"
    by (simp add: pack_FloatV)
  moreover have "length (be_bytes 8 (unat w)) < 2 ^ 32" by simp
  ultimately show ?thesis by blast
next
  case NoneV
  with assms have "bs = of_char CHR ''n'' # be_bytes 4 (length ([] :: bytes)) @ []"
    by (simp add: pack_NoneV)
  then show ?thesis by (metis list.size(3) zero_less_numeral zero_less_power)
qed (use assms in \<open>auto simp: pack_eqs frame_iff split: sum.splits\<close>)

lemma map_err_InrD:
  "map_err f xs = Inr ys \<Longrightarrow> ys = map (\<lambda>x. projr (f x)) xs \<and> (\<forall>x\<in>set xs. \<exists>y. f x = Inr y)"
  by (induction xs arbitrary: ys) (auto split: sum.splits)

lemma map_err_InrI:
  "\<forall>x\<in>set xs. \<exists>y. f x = Inr y \<Longrightarrow> map_err f xs = Inr (map (\<lambda>x. projr (f x)) xs)"
  by (induction xs) (auto split: sum.splits)

lemma as_ss_eq:
  "as_ss (struct_unpack [Fs a, Fs b] d) =
     (if 0 \<le> a \<and> 0 \<le> b \<and> int (length d) = a + b then Inr (take (nat a) d, drop (nat a) d)
      else Inl StructError)"
  by (auto simp: struct_unpack_def calcsize_def)

lemma as_Is_eq:
  "as_Is (struct_unpack [FI, Fs b] d) =
     (if 0 \<le> b \<and> int (length d) = 4 + b then Inr (int (be_nat (take 4 d)), drop 4 d)
      else Inl StructError)"
  by (auto simp: struct_unpack_def calcsize_def)

lemma as_sIs_eq:
  "as_sIs (struct_unpack [Fs 1, FI, Fs b] d) =
     (if 0 \<le> b \<and> int (length d) = 5 + b
      then Inr (take 1 d, int (be_nat (take 4 (drop 1 d))), drop 5 d)
      else Inl StructError)"
  by (auto simp: struct_unpack_def calcsize_def)

lemma sort_cong_mset:
  fixes xs ys :: "'a::linorder list"
  assumes "mset xs = mset ys"
  shows "sort xs = sort ys"
proof -
  have "sort xs = sorted_list_of_multiset (mset xs)"
    by (rule sorted_list_of_multiset_mset [symmetric])
  also have "\<dots> = sorted_list_of_multiset (mset ys)"
    by (simp only: assms)
  also have "\<dots> = sort ys"
    by (rule sorted_list_of_multiset_mset)
  finally show ?thesis .
qed

lemma sort_map_cong_mset:
  fixes g :: "'b \<Rightarrow> 'a::linorder"
  assumes "mset xs = mset ys"
  shows "sort (map g xs) = sort (map g ys)"
proof (rule sort_cong_mset)
  show "mset (map g xs) = mset (map g ys)"
    by (simp only: mset_map assms)
qed

section \<open>The claims\<close>

text \<open>
  C2. The claim: the element frames of a set are sorted before they are concatenated, so
  that equal sets have equal encodings. In \<^verbatim>\<open>pack\<close> a set shares the branch of lists and
  tuples, which joins the element frames in iteration order and never sorts. The sets
  built by \<^verbatim>\<open>set([8, 0])\<close> and \<^verbatim>\<open>set([0, 8])\<close> are equal and iterate in different orders
  (8 and 0 fall into the same slot of the hash table, so the order of insertion decides);
  their encodings differ.
\<close>

theorem pack_set_iteration_order:
  "set [IntV 8, IntV 0 :: (pystr, pystr) pyval] = set [IntV 0, IntV 8]
   \<and> pack test_host (SetV [IntV 8, IntV 0]) \<noteq> pack test_host (SetV [IntV 0, IntV 8])"
  by (simp add: pack_SetV pack_IntV frame_def struct_pack_def B_def be_bytes_4 insert_commute)

text \<open>
  How a dict is encoded: every item is packed as a 2-tuple, the frames of the items are
  sorted as byte strings and concatenated behind the tag \<^verbatim>\<open>d\<close> and the length. Two dicts
  that hold the very same items (down to the iteration order of any set inside them) in
  different insertion orders therefore have the same encoding.
\<close>

theorem pack_dict_sorted:
  assumes "mset kvs = mset kvs'" and "pack H (DictV kvs) = Inr bs"
  shows "pack H (DictV kvs') = Inr bs \<and>
         (\<exists>fs. map_err (\<lambda>(key, value). pack H (TupleV [key, value])) kvs = Inr fs
              \<and> bs = of_char CHR ''d'' # be_bytes 4 (length (concat (sort fs))) @ concat (sort fs))"
proof -
  define f where "f = (\<lambda>(key, value). pack H (TupleV [key, value]))"
  define g where "g = (\<lambda>x. projr (f x))"
  have pd: "pack H (DictV xs) =
      (case map_err f xs of Inl e \<Rightarrow> Inl e | Inr fs \<Rightarrow> frame CHR ''d'' (concat (sort fs)))" for xs
    unfolding f_def by (rule pack_DictV)
  from assms(2) obtain fs where fs: "map_err f kvs = Inr fs"
    and fr: "frame CHR ''d'' (concat (sort fs)) = Inr bs"
    by (cases "map_err f kvs") (simp_all add: pd)
  note d = map_err_InrD [OF fs]
  from d have fs_eq: "fs = map g kvs" unfolding g_def by (rule conjunct1)
  from d have ok: "\<forall>x\<in>set kvs. \<exists>y. f x = Inr y" by (rule conjunct2)
  from assms(1) have "set kvs' = set kvs" by (rule mset_eq_setD [symmetric])
  with ok have "\<forall>x\<in>set kvs'. \<exists>y. f x = Inr y" by simp
  then have fs': "map_err f kvs' = Inr (map g kvs')"
    unfolding g_def by (rule map_err_InrI)
  have "sort (map g kvs') = sort fs"
    unfolding fs_eq using assms(1) [symmetric] by (rule sort_map_cong_mset)
  with fs' fr have "pack H (DictV kvs') = Inr bs"
    by (simp add: pd)
  moreover from fr
  have "bs = of_char CHR ''d'' # be_bytes 4 (length (concat (sort fs))) @ concat (sort fs)"
    by (simp add: frame_iff)
  ultimately show ?thesis using fs unfolding f_def by blast
qed

theorem pack_dict_sorted_witness:
  "mset [(IntV 1, IntV 2), (IntV 3, IntV 4)]
     = mset [(IntV 3, IntV 4), (IntV 1, IntV 2 :: (pystr, pystr) pyval)]
   \<and> pack test_host (DictV [(IntV 1, IntV 2), (IntV 3, IntV 4)]) =
       Inr (B ''d'' @ [0, 0, 0, 46]
            @ B ''t'' @ [0, 0, 0, 18]
            @ B ''i'' @ [0, 0, 0, 4, 0, 0, 0, 1] @ B ''i'' @ [0, 0, 0, 4, 0, 0, 0, 2]
            @ B ''t'' @ [0, 0, 0, 18]
            @ B ''i'' @ [0, 0, 0, 4, 0, 0, 0, 3] @ B ''i'' @ [0, 0, 0, 4, 0, 0, 0, 4])
   \<and> pack test_host (DictV [(IntV 3, IntV 4), (IntV 1, IntV 2)]) =
       Inr (B ''d'' @ [0, 0, 0, 46]
            @ B ''t'' @ [0, 0, 0, 18]
            @ B ''i'' @ [0, 0, 0, 4, 0, 0, 0, 1] @ B ''i'' @ [0, 0, 0, 4, 0, 0, 0, 2]
            @ B ''t'' @ [0, 0, 0, 18]
            @ B ''i'' @ [0, 0, 0, 4, 0, 0, 0, 3] @ B ''i'' @ [0, 0, 0, 4, 0, 0, 0, 4])"
proof -
  have m: "mset [(IntV 1, IntV 2), (IntV 3, IntV 4)]
      = mset [(IntV 3, IntV 4), (IntV 1, IntV 2 :: (pystr, pystr) pyval)]"
    by simp
  have p: "pack test_host (DictV [(IntV 1, IntV 2), (IntV 3, IntV 4)]) =
       Inr (B ''d'' @ [0, 0, 0, 46]
            @ B ''t'' @ [0, 0, 0, 18]
            @ B ''i'' @ [0, 0, 0, 4, 0, 0, 0, 1] @ B ''i'' @ [0, 0, 0, 4, 0, 0, 0, 2]
            @ B ''t'' @ [0, 0, 0, 18]
            @ B ''i'' @ [0, 0, 0, 4, 0, 0, 0, 3] @ B ''i'' @ [0, 0, 0, 4, 0, 0, 0, 4])"
    by (simp add: pack_eqs frame_def struct_pack_def B_def be_bytes_4)
  from pack_dict_sorted [OF m p] m p show ?thesis by simp
qed

text \<open>
  C3. The claim: any two mappings with the same key-value pairs encode to the same bytes.
  The dict branch sorts the frames of the items, but a set that is the value of an item
  is encoded by the branch shared with lists and tuples, in iteration order and unsorted.
  The dicts \<^verbatim>\<open>{'a': set([8, 0]), 'b': 1}\<close> and \<^verbatim>\<open>{'b': 1, 'a': set([0, 8])}\<close> are equal,
  both are encoded, and the two encodings differ in the order of the last two frames.
\<close>

theorem pack_dict_nested_set:
  "pack test_host (DictV [(StrV (U ''a''), SetV [IntV 8, IntV 0]), (StrV (U ''b''), IntV 1)]) =
     Inr (B ''d'' @ [0, 0, 0, 54]
          @ B ''t'' @ [0, 0, 0, 15] @ B ''s'' @ [0, 0, 0, 1] @ B ''b''
          @ B ''i'' @ [0, 0, 0, 4, 0, 0, 0, 1]
          @ B ''t'' @ [0, 0, 0, 29] @ B ''s'' @ [0, 0, 0, 1] @ B ''a''
          @ B ''e'' @ [0, 0, 0, 18]
          @ B ''i'' @ [0, 0, 0, 4, 0, 0, 0, 8] @ B ''i'' @ [0, 0, 0, 4, 0, 0, 0, 0])
   \<and> pack test_host (DictV [(StrV (U ''b''), IntV 1), (StrV (U ''a''), SetV [IntV 0, IntV 8])]) =
     Inr (B ''d'' @ [0, 0, 0, 54]
          @ B ''t'' @ [0, 0, 0, 15] @ B ''s'' @ [0, 0, 0, 1] @ B ''b''
          @ B ''i'' @ [0, 0, 0, 4, 0, 0, 0, 1]
          @ B ''t'' @ [0, 0, 0, 29] @ B ''s'' @ [0, 0, 0, 1] @ B ''a''
          @ B ''e'' @ [0, 0, 0, 18]
          @ B ''i'' @ [0, 0, 0, 4, 0, 0, 0, 0] @ B ''i'' @ [0, 0, 0, 4, 0, 0, 0, 8])
   \<and> pack test_host (DictV [(StrV (U ''a''), SetV [IntV 8, IntV 0]), (StrV (U ''b''), IntV 1)])
     \<noteq> pack test_host (DictV [(StrV (U ''b''), IntV 1), (StrV (U ''a''), SetV [IntV 0, IntV 8])])"
  by (simp add: pack_eqs frame_def struct_pack_def B_def U_def be_bytes_4
      utf8_encode_def utf8_char_def is_scalar_def byte_of_def)

text \<open>
  C4. The claim: a leading byte that is none of the thirteen tags makes \<^verbatim>\<open>unpack\<close> fail.
  The function has no branch for such a byte and no final \<^verbatim>\<open>raise\<close>: control reaches the
  end of the body and the call returns \<^verbatim>\<open>None\<close>, the value of an \<^verbatim>\<open>n\<close> frame. First the
  input \<^verbatim>\<open>b'x'\<close>, then the statement for every input that is not empty.
\<close>

theorem unpack_unknown_tag_counterexample:
  "unpack test_host Map.empty (B ''x'') = Inr NoneV"
  by (simp add: unpack.simps B_def struct_unpack_def calcsize_def)

theorem unpack_unknown_tag:
  assumes "c \<notin> set (B ''pletdbasiBfDn'')"
  shows "unpack H inject (c # rest) = Inr NoneV"
  using assms by (simp add: unpack.simps [of H inject "c # rest"] as_ss_eq B_def)

theorem unpack_unknown_tag_witness:
  "(120 :: byte) \<notin> set (B ''pletdbasiBfDn'')
   \<and> unpack test_host Map.empty (120 # [1, 2, 3]) = Inr NoneV"
  using unpack_unknown_tag [of 120 test_host Map.empty "[1, 2, 3]"]
  by (simp add: B_def)

text \<open>
  C5. The claim: \<^verbatim>\<open>pack\<close> accepts every integer and \<^verbatim>\<open>unpack\<close> returns it. The payload is
  written with the format \<^verbatim>\<open>I\<close>, an unsigned 32-bit field, and \<^verbatim>\<open>struct.pack\<close> raises
  \<^verbatim>\<open>struct.error\<close> for an argument outside \<open>0 \<dots> 2\<^sup>3\<^sup>2 - 1\<close>: \<^verbatim>\<open>pack(-1)\<close> and
  \<^verbatim>\<open>pack(2**32)\<close> produce no frame.
\<close>

theorem pack_int_out_of_range:
  "pack test_host (IntV (- 1)) = Inl StructError
   \<and> pack test_host (IntV (2 ^ 32)) = Inl StructError"
  by (simp add: pack_IntV)

text \<open>
  C6. A value of a type outside the data model is rejected by the assertion that opens
  \<^verbatim>\<open>pack\<close>: the result is the usage error whose message names the type, and no bytes are
  produced.
\<close>

theorem pack_rejects_other:
  fixes H :: "('o, 'd) host"
  shows "pack H (OtherV k) =
    Inl (UsageError
      (U ''data type must be one of (Packable, list, set, tuple, str, bytes, bytearray, int, bool, float, Decimal, NoneType); <class ''
       @ [39] @ k @ [39] @ U ''> is not serializable''))"
  by (simp add: pack_OtherV not_serializable_def type_repr_def U_def)

text \<open>
  C8. Whatever \<^verbatim>\<open>pack\<close> returns is one frame: a tag byte, the length of the payload in four
  bytes, big-endian, and a payload of exactly that length, so that the whole is five bytes
  longer than the declared length.
\<close>

theorem pack_is_frame:
  assumes "pack H v = Inr bs"
  shows "is_frame bs \<and> length bs = 5 + be_nat (take 4 (drop 1 bs))"
proof -
  from assms obtain c p where "bs = c # be_bytes 4 (length p) @ p" "length p < 2 ^ 32"
    using pack_framed by blast
  then show ?thesis by (simp add: is_frame_def be_nat_be_bytes)
qed

theorem pack_is_frame_witness:
  "pack test_host (ListV [IntV 1, StrV (U ''a''), BoolV True]) =
     Inr (B ''l'' @ [0, 0, 0, 21] @ B ''i'' @ [0, 0, 0, 4, 0, 0, 0, 1]
          @ B ''s'' @ [0, 0, 0, 1] @ B ''a'' @ B ''B'' @ [0, 0, 0, 1, 1])
   \<and> is_frame (B ''l'' @ [0, 0, 0, 21] @ B ''i'' @ [0, 0, 0, 4, 0, 0, 0, 1]
          @ B ''s'' @ [0, 0, 0, 1] @ B ''a'' @ B ''B'' @ [0, 0, 0, 1, 1])"
proof -
  have p: "pack test_host (ListV [IntV 1, StrV (U ''a''), BoolV True]) =
     Inr (B ''l'' @ [0, 0, 0, 21] @ B ''i'' @ [0, 0, 0, 4, 0, 0, 0, 1]
          @ B ''s'' @ [0, 0, 0, 1] @ B ''a'' @ B ''B'' @ [0, 0, 0, 1, 1])"
    by (simp add: pack_eqs frame_def struct_pack_def B_def U_def be_bytes_4
        utf8_encode_def utf8_char_def is_scalar_def byte_of_def)
  from pack_is_frame [OF p] p show ?thesis by simp
qed

text \<open>
  C10. \<^verbatim>\<open>unpack\<close> reads the declared number of payload bytes of a \<^verbatim>\<open>bytes\<close> frame and
  ignores whatever follows: for every byte string \<open>s\<close>, empty or not, appended to the
  encoding of \<open>b\<close> it returns \<open>b\<close>.
\<close>

theorem unpack_bytes_ignores_suffix:
  assumes "pack H (BytesV b) = Inr bs"
  shows "unpack H inject (bs @ s) = Inr (BytesV b)"
proof -
  from assms have len: "length b < 2 ^ 32"
    and bs: "bs = of_char CHR ''b'' # be_bytes 4 (length b) @ b"
    by (simp_all add: pack_BytesV frame_iff)
  show ?thesis
    unfolding bs using len
    by (subst unpack.simps) (simp add: as_ss_eq as_Is_eq B_def be_nat_be_bytes)
qed

theorem unpack_bytes_ignores_suffix_witness:
  "pack test_host (BytesV (B ''ab'')) = Inr (B ''b'' @ [0, 0, 0, 2] @ B ''ab'')
   \<and> unpack test_host Map.empty ((B ''b'' @ [0, 0, 0, 2] @ B ''ab'') @ B ''junk'')
       = Inr (BytesV (B ''ab''))"
proof -
  have p: "pack test_host (BytesV (B ''ab'')) = Inr (B ''b'' @ [0, 0, 0, 2] @ B ''ab'')"
    by (simp add: pack_eqs frame_def struct_pack_def B_def be_bytes_4)
  from unpack_bytes_ignores_suffix [OF p] p show ?thesis by simp
qed

end
